theory Spec2Isabelle
  imports Complex_Main "HOL-Library.Monad_Syntax"
begin

section \<open>Numbers\<close>

text \<open>
  A value of the C++ types \<open>float\<close> and \<open>double\<close> is a \<open>cfloat\<close>: a finite value
  carries the real number it stands for, and the three special values of IEEE 754 are
  kept apart, so that a division by zero gives what the machine gives (\<open>NaN\<close> or an
  infinity) and not the \<open>0\<close> of HOL's \<open>/\<close>. The sign of zero is not modelled: \<open>Finite 0\<close>
  stands for both zeros, and a zero divisor counts as \<open>+0\<close> (the zero divisors of the
  program are a running sum that starts at \<open>0.0\<close> and a converted \<open>int\<close>, which are never
  \<open>-0\<close>).

  The functions \<open>fadd\<close>, \<open>fsub\<close>, \<open>fmul\<close> and \<open>fdiv\<close> give the exact result of an
  operation; an operation of the program is the exact result rounded to the type it is
  computed in, \<open>to_float\<close> for binary32 and \<open>to_double\<close> for binary64, to nearest with
  ties to even, each operation rounded by itself (no extended precision and no fused
  multiply-add).
\<close>

datatype cfloat = Finite real | PInf | NInf | NaN

fun fneg :: "cfloat \<Rightarrow> cfloat" where
  "fneg (Finite a) = Finite (- a)"
| "fneg PInf = NInf"
| "fneg NInf = PInf"
| "fneg NaN = NaN"

fun fadd :: "cfloat \<Rightarrow> cfloat \<Rightarrow> cfloat" where
  "fadd (Finite a) (Finite b) = Finite (a + b)"
| "fadd NaN y = NaN"
| "fadd x NaN = NaN"
| "fadd PInf NInf = NaN"
| "fadd NInf PInf = NaN"
| "fadd PInf y = PInf"
| "fadd x PInf = PInf"
| "fadd NInf y = NInf"
| "fadd x NInf = NInf"

definition fsub :: "cfloat \<Rightarrow> cfloat \<Rightarrow> cfloat" where
  "fsub x y = fadd x (fneg y)"

fun fmul :: "cfloat \<Rightarrow> cfloat \<Rightarrow> cfloat" where
  "fmul (Finite a) (Finite b) = Finite (a * b)"
| "fmul NaN y = NaN"
| "fmul x NaN = NaN"
| "fmul (Finite a) y = (if a = 0 then NaN else if 0 < a then y else fneg y)"
| "fmul x (Finite b) = (if b = 0 then NaN else if 0 < b then x else fneg x)"
| "fmul x y = (if x = y then PInf else NInf)"

fun fdiv :: "cfloat \<Rightarrow> cfloat \<Rightarrow> cfloat" where
  "fdiv (Finite a) (Finite b) =
     (if b = 0 then (if a = 0 then NaN else if 0 < a then PInf else NInf)
      else Finite (a / b))"
| "fdiv NaN y = NaN"
| "fdiv x NaN = NaN"
| "fdiv (Finite a) y = Finite 0"
| "fdiv x (Finite b) = (if 0 \<le> b then x else fneg x)"
| "fdiv x y = NaN"

fun fabs :: "cfloat \<Rightarrow> cfloat" where
  "fabs (Finite a) = Finite \<bar>a\<bar>"
| "fabs PInf = PInf"
| "fabs NInf = PInf"
| "fabs NaN = NaN"

text \<open>\<open>fgt x y\<close> is the comparison \<open>x > y\<close>; it is false as soon as one side is \<open>NaN\<close>.\<close>

fun fgt :: "cfloat \<Rightarrow> cfloat \<Rightarrow> bool" where
  "fgt (Finite a) (Finite b) = (b < a)"
| "fgt NaN y = False"
| "fgt x NaN = False"
| "fgt PInf y = (y \<noteq> PInf)"
| "fgt x PInf = False"
| "fgt x NInf = (x \<noteq> NInf)"
| "fgt NInf y = False"


fun val :: "cfloat \<Rightarrow> real" where
  "val (Finite a) = a"
| "val x = 0"

text \<open>
  Rounding. \<open>bit_length n\<close> is the number of binary digits of a positive integer and
  \<open>floor_log2 x\<close> the exponent \<open>e\<close> with \<open>2^e \<le> x < 2^(e+1)\<close> of a positive real.
  \<open>round_fp p emin emax\<close> rounds a real to the format with \<open>p\<close> significant bits and
  exponents from \<open>emin\<close> to \<open>emax\<close>: the spacing \<open>u\<close> of the format at \<open>x\<close> is
  \<open>2^(e - (p - 1))\<close>, with \<open>e\<close> not below \<open>emin\<close> (subnormal numbers), the result is the
  multiple \<open>n * u\<close> of \<open>u\<close> nearest to \<open>x\<close>, ties going to the even \<open>n\<close>, and its exponent
  is \<open>e + (bit_length n - p)\<close> (for a number that is not subnormal this is \<open>e\<close>, or
  \<open>e + 1\<close> when \<open>n\<close> has been rounded up to \<open>2^p\<close>); a result whose exponent is above
  \<open>emax\<close>, that is of magnitude \<open>2^(emax + 1)\<close> or more, is an infinity.
\<close>

function bit_length :: "int \<Rightarrow> int" where
  "bit_length n = (if n \<le> 0 then 0 else 1 + bit_length (n div 2))"
  by pat_completeness auto
termination
  by (relation "measure nat") auto

declare bit_length.simps [simp del]

definition floor_log2 :: "real \<Rightarrow> int" where
  "floor_log2 x = (if 1 \<le> x then bit_length \<lfloor>x\<rfloor> - 1 else - bit_length (\<lceil>1 / x\<rceil> - 1))"

definition round_even :: "real \<Rightarrow> int" where
  "round_even x =
     (let f = \<lfloor>x\<rfloor>; d = x - of_int f
      in if d < 1 / 2 then f else if 1 / 2 < d then f + 1 else if even f then f else f + 1)"

definition round_fp :: "int \<Rightarrow> int \<Rightarrow> int \<Rightarrow> real \<Rightarrow> cfloat" where
  "round_fp p emin emax x =
     (if x = 0 then Finite 0
      else
        let e = max emin (floor_log2 \<bar>x\<bar>);
            u = 2 powi (e - (p - 1));
            n = round_even (x / u)
        in if emax < e + (bit_length \<bar>n\<bar> - p) then (if 0 < x then PInf else NInf)
           else Finite (of_int n * u))"

fun to_float :: "cfloat \<Rightarrow> cfloat" where
  "to_float (Finite x) = round_fp 24 (- 126) 127 x"
| "to_float v = v"

fun to_double :: "cfloat \<Rightarrow> cfloat" where
  "to_double (Finite x) = round_fp 53 (- 1022) 1023 x"
| "to_double v = v"

text \<open>
  An \<open>int\<close> has 32 bits. Signed overflow is undefined behaviour: \<open>c_int n\<close> is the value
  of an \<open>int\<close> expression whose mathematical value is \<open>n\<close>, \<open>None\<close> when \<open>n\<close> does not
  fit. The remainder \<open>a % b\<close> of C++ truncates towards zero and takes the sign of \<open>a\<close>;
  every use below sits inside a loop over \<open>0 \<le> i < b\<close>, so the divisor is positive
  there. The sizes of vectors are taken to be at most \<open>2147483647\<close>, so that they fit
  the \<open>int\<close> variables and loop counters the program holds them in; the theorems below
  that speak of every grid of some dimensions say so.
\<close>

definition c_int :: "int \<Rightarrow> int option" where
  "c_int n = (if - 2147483648 \<le> n \<and> n \<le> 2147483647 then Some n else None)"

definition c_rem :: "int \<Rightarrow> int \<Rightarrow> int" where
  "c_rem a b = sgn a * (\<bar>a\<bar> mod \<bar>b\<bar>)"

section \<open>Vectors and loops\<close>

text \<open>
  \<open>operator[]\<close> of \<open>std::vector\<close> has undefined behaviour out of range. The model
  makes it the result \<open>None\<close>: a function of the program returns \<open>Some\<close> of its value,
  or \<open>None\<close> when it reads or writes outside a vector or an \<open>int\<close> expression overflows.
  An index is an \<open>int\<close>; a negative one is out of range.
\<close>

type_synonym grid = "cfloat list list"

definition vec_at :: "'a list \<Rightarrow> int \<Rightarrow> 'a option" where
  "vec_at xs i = (if 0 \<le> i \<and> i < int (length xs) then Some (xs ! nat i) else None)"

definition vec_put :: "'a list \<Rightarrow> int \<Rightarrow> 'a \<Rightarrow> 'a list option" where
  "vec_put xs i v = (if 0 \<le> i \<and> i < int (length xs) then Some (xs[nat i := v]) else None)"

definition cell_at :: "'a list list \<Rightarrow> int \<Rightarrow> int \<Rightarrow> 'a option" where
  "cell_at g i j = do { row \<leftarrow> vec_at g i; vec_at row j }"

definition cell_put :: "'a list list \<Rightarrow> int \<Rightarrow> int \<Rightarrow> 'a \<Rightarrow> 'a list list option" where
  "cell_put g i j v = do { row \<leftarrow> vec_at g i; row' \<leftarrow> vec_put row j v; vec_put g i row' }"

text \<open>The compound assignment \<open>g[i][j] += v\<close> on a grid of \<open>float\<close>.\<close>

definition cell_add :: "grid \<Rightarrow> int \<Rightarrow> int \<Rightarrow> cfloat \<Rightarrow> grid option" where
  "cell_add g i j v = do { old \<leftarrow> cell_at g i j; cell_put g i j (to_float (fadd old v)) }"

text \<open>
  \<open>for_loop is body s\<close> runs \<open>body i\<close> for each index of \<open>is\<close> in turn on the state
  \<open>s\<close> (the variables the loop assigns), and stops at the first undefined step.
\<close>

fun for_loop :: "'i list \<Rightarrow> ('i \<Rightarrow> 's \<Rightarrow> 's option) \<Rightarrow> 's \<Rightarrow> 's option" where
  "for_loop [] body s = Some s"
| "for_loop (i # is) body s = do { s' \<leftarrow> body i s; for_loop is body s' }"

text \<open>
  \<open>for_all_loop is body\<close> is a loop whose body may \<open>return false\<close> from the enclosing
  function: \<open>body i = Some False\<close> is that return, \<open>Some True\<close> goes on to the next
  index, and a loop that runs to its end gives \<open>Some True\<close>.
\<close>

fun for_all_loop :: "'i list \<Rightarrow> ('i \<Rightarrow> bool option) \<Rightarrow> bool option" where
  "for_all_loop [] body = Some True"
| "for_all_loop (i # is) body =
     do { ok \<leftarrow> body i; if ok then for_all_loop is body else Some False }"

section \<open>helpers.cpp\<close>

text \<open>
  \<open>normalize\<close> (named \<open>normalize_grid\<close>, since HOL has a constant \<open>normalize\<close>): the
  first pair of loops sums the cells, \<open>cell\<close> running below \<open>grid[0].size()\<close>; in the
  second pair \<open>cell\<close> runs below \<open>grid.size()\<close>.
\<close>

definition normalize_grid :: "grid \<Rightarrow> grid option" where
  "normalize_grid grid = do {
     row0 \<leftarrow> vec_at grid 0;
     let newGrid = replicate (length grid) (replicate (length row0) (Finite 0));
     grid_total \<leftarrow>
       for_loop [0..<length grid] (\<lambda>row.
         for_loop [0..<length row0] (\<lambda>cell total. do {
           v \<leftarrow> cell_at grid (int row) (int cell);
           Some (to_float (fadd total v)) }))
       (Finite 0);
     for_loop [0..<length grid] (\<lambda>row.
       for_loop [0..<length grid] (\<lambda>cell ng. do {
         v \<leftarrow> cell_at grid (int row) (int cell);
         cell_put ng (int row) (int cell) (to_float (fdiv v grid_total)) }))
     newGrid }"

text \<open>
  The window of \<open>blur\<close>. The literals \<open>1.0\<close>, \<open>12.0\<close> and \<open>6.0\<close> are of type \<open>double\<close>:
  each entry is computed in \<open>double\<close> and then stored in a \<open>float\<close>.
\<close>

definition window :: "cfloat \<Rightarrow> grid" where
  "window blurring =
     (let center_prob = to_float (to_double (fsub (Finite 1) blurring));
          corner_prob = to_float (to_double (fdiv blurring (Finite 12)));
          adjacent_prob = to_float (to_double (fdiv blurring (Finite 6)))
      in [[corner_prob, adjacent_prob, corner_prob],
          [adjacent_prob, center_prob, adjacent_prob],
          [corner_prob, adjacent_prob, corner_prob]])"

text \<open>The four nested loops of \<open>blur\<close>, before the final call of \<open>normalize\<close>.\<close>

definition spread :: "grid \<Rightarrow> grid \<Rightarrow> int \<Rightarrow> int \<Rightarrow> grid \<Rightarrow> grid option" where
  "spread grid win height width newGrid =
     for_loop [0..<nat height] (\<lambda>i.
       for_loop [0..<nat width] (\<lambda>j ng0. do {
         grid_value \<leftarrow> cell_at grid (int i) (int j);
         for_loop [-1, 0, 1] (\<lambda>dx.
           for_loop [-1, 0, 1] (\<lambda>dy ng. do {
             mult \<leftarrow> cell_at win (dx + 1) (dy + 1);
             si \<leftarrow> c_int (c_rem (int i + dy) height + height);
             let new_i = c_rem si height;
             sj \<leftarrow> c_int (c_rem (int j + dx) width + width);
             let new_j = c_rem sj width;
             cell_add ng new_i new_j (to_float (fmul mult grid_value)) }))
         ng0 }))
     newGrid"

definition blur :: "grid \<Rightarrow> cfloat \<Rightarrow> grid option" where
  "blur grid blurring = do {
     row0 \<leftarrow> vec_at grid 0;
     let height = int (length grid);
     let width = int (length row0);
     let newGrid = replicate (nat height) (replicate (nat width) (Finite 0));
     newGrid' \<leftarrow> spread grid (window blurring) height width newGrid;
     normalize_grid newGrid' }"

text \<open>
  The two overloads of \<open>close_enough\<close>; the one on two numbers is \<open>close_enough_scalar\<close>.
  The difference \<open>v2-v1\<close> is a \<open>float\<close> subtraction; under \<open>using namespace std\<close> with
  \<open><cmath>\<close> the call \<open>abs(v2-v1)\<close> is \<open>std::abs(float)\<close>; the comparison is made in
  \<open>double\<close> against the literal \<open>0.0001\<close>, the \<open>double\<close> nearest to \<open>1/10000\<close>. Both
  \<open>return true\<close> when no cell has made them \<open>return false\<close>.
\<close>

definition tolerance :: "cfloat" where
  "tolerance = to_double (Finite (1 / 10000))"

definition close_enough_scalar :: "cfloat \<Rightarrow> cfloat \<Rightarrow> bool" where
  "close_enough_scalar v1 v2 =
     (if fgt (fabs (to_float (fsub v2 v1))) tolerance then False else True)"

definition close_enough :: "grid \<Rightarrow> grid \<Rightarrow> bool option" where
  "close_enough g1 g2 =
     (if length g1 \<noteq> length g2 then Some False
      else do {
        r1 \<leftarrow> vec_at g1 0;
        r2 \<leftarrow> vec_at g2 0;
        if length r1 \<noteq> length r2 then Some False
        else
          for_all_loop [0..<length g1] (\<lambda>i.
            for_all_loop [0..<length r1] (\<lambda>j. do {
              v1 \<leftarrow> cell_at g1 (int i) (int j);
              v2 \<leftarrow> cell_at g2 (int i) (int j);
              Some (\<not> fgt (fabs (to_float (fsub v2 v1))) tolerance) })) })"

section \<open>localizer.cpp\<close>

text \<open>
  \<open>initialize_beliefs\<close>: the product \<open>height * width\<close> is an \<open>int\<close> product, the quotient
  \<open>1.0 / area\<close> a \<open>double\<close> division, and the quotient is stored in a \<open>float\<close>.
\<close>

definition initialize_beliefs :: "char list list \<Rightarrow> grid option" where
  "initialize_beliefs grid = do {
     row0 \<leftarrow> vec_at grid 0;
     let height = int (length grid);
     let width = int (length row0);
     area \<leftarrow> c_int (height * width);
     let belief_per_cell = to_float (to_double (fdiv (Finite 1) (Finite (of_int area))));
     Some (replicate (nat height) (replicate (nat width) belief_per_cell)) }"

text \<open>
  \<open>move\<close> is its pair of loops, called \<open>shift\<close> here, followed by \<open>blur\<close>. The loops
  reduce the row index by \<open>% width\<close> and the column index by \<open>% height\<close>.
\<close>

definition shift :: "int \<Rightarrow> int \<Rightarrow> grid \<Rightarrow> int \<Rightarrow> int \<Rightarrow> grid \<Rightarrow> grid option" where
  "shift dy dx beliefs height width newGrid =
     for_loop [0..<nat height] (\<lambda>i.
       for_loop [0..<nat width] (\<lambda>j ng. do {
         si \<leftarrow> c_int (int i + dy);
         let new_i = c_rem si width;
         sj \<leftarrow> c_int (int j + dx);
         let new_j = c_rem sj height;
         v \<leftarrow> cell_at beliefs (int i) (int j);
         cell_put ng new_i new_j v }))
     newGrid"

definition move :: "int \<Rightarrow> int \<Rightarrow> grid \<Rightarrow> cfloat \<Rightarrow> grid option" where
  "move dy dx beliefs blurring = do {
     row0 \<leftarrow> vec_at beliefs 0;
     let height = int (length beliefs);
     let width = int (length row0);
     let newGrid = replicate (nat height) (replicate (nat width) (Finite 0));
     newGrid' \<leftarrow> shift dy dx beliefs height width newGrid;
     blur newGrid' blurring }"

text \<open>
  The body of \<open>sense\<close> is the placeholder of the exercise: \<open>newGrid\<close> is declared,
  nothing is stored in it, and \<open>normalize\<close> is called on the empty vector.
\<close>

definition sense :: "char \<Rightarrow> char list list \<Rightarrow> grid \<Rightarrow> cfloat \<Rightarrow> cfloat \<Rightarrow> grid option" where
  "sense color grid beliefs p_hit p_miss = (let newGrid = [] in normalize_grid newGrid)"

section \<open>Shapes and totals\<close>

text \<open>
  A grid is \<open>rectangular g h w\<close> when it has \<open>h\<close> rows of \<open>w\<close> cells each, and
  \<open>all_finite\<close> when no cell is \<open>NaN\<close> or an infinity. \<open>total_mass g\<close> is the sum of the
  cells as real numbers; \<open>running_total g\<close> is the sum as the first pair of loops of
  \<open>normalize\<close> accumulates it, in \<open>float\<close>, row by row from \<open>0.0\<close>.
\<close>

definition rectangular :: "'a list list \<Rightarrow> nat \<Rightarrow> nat \<Rightarrow> bool" where
  "rectangular g h w = (length g = h \<and> list_all (\<lambda>r. length r = w) g)"


definition total_mass :: "grid \<Rightarrow> real" where
  "total_mass g = sum_list (map val (concat g))"



section \<open>Loops\<close>



lemma rectangular_nth: "rectangular g h w \<Longrightarrow> i < h \<Longrightarrow> length (g ! i) = w"
  by (simp add: rectangular_def list_all_length)



lemma cell_at_nat:
  "i < length g \<Longrightarrow> j < length (g ! i) \<Longrightarrow> cell_at g (int i) (int j) = Some (g ! i ! j)"
  by (simp add: cell_at_def vec_at_def)










lemma for_all_loop_char:
  assumes "\<And>x. x \<in> set xs \<Longrightarrow> body x = Some (P x)"
  shows "for_all_loop xs body = Some (\<forall>x\<in>set xs. P x)"
  using assms by (induction xs) auto


lemma round_fp_not_NaN: "round_fp p emin emax x \<noteq> NaN"
  by (simp add: round_fp_def Let_def)

lemma tolerance_value: "tolerance = Finite (7378697629483821 / 73786976294838206464)"
  unfolding tolerance_def by code_simp

lemma close_enough_cells:
  assumes "rectangular g1 h w" and "rectangular g2 h w" and "0 < h"
  shows "close_enough g1 g2
         = Some (\<forall>i<h. \<forall>j<w. close_enough_scalar (g1 ! i ! j) (g2 ! i ! j))"
proof -
  let ?P = "\<lambda>i j. close_enough_scalar (g1 ! i ! j) (g2 ! i ! j)"
  let ?cell = "\<lambda>i j. do {
              v1 \<leftarrow> cell_at g1 (int i) (int j);
              v2 \<leftarrow> cell_at g2 (int i) (int j);
              Some (\<not> fgt (fabs (to_float (fsub v2 v1))) tolerance) }"
  have l1: "length g1 = h" and l2: "length g2 = h"
    using assms by (simp_all add: rectangular_def)
  have w1: "\<And>i. i < h \<Longrightarrow> length (g1 ! i) = w" and w2: "\<And>i. i < h \<Longrightarrow> length (g2 ! i) = w"
    using assms by (simp_all add: rectangular_nth)
  have at1: "vec_at g1 0 = Some (g1 ! 0)" and at2: "vec_at g2 0 = Some (g2 ! 0)"
    using l1 l2 assms(3) by (simp_all add: vec_at_def)
  have cell: "?cell i j = Some (?P i j)" if i: "i < h" and j: "j < w" for i j
    using i j l1 l2 w1 w2 by (simp add: cell_at_nat close_enough_scalar_def)
  have inner: "for_all_loop [0..<w] (?cell i) = Some (\<forall>j\<in>set [0..<w]. ?P i j)"
    if i: "i < h" for i
  proof (rule for_all_loop_char)
    fix j assume "j \<in> set [0..<w]"
    then have "j < w" by simp
    with i show "?cell i j = Some (?P i j)" by (rule cell)
  qed
  have "for_all_loop [0..<h] (\<lambda>i. for_all_loop [0..<w] (?cell i))
        = Some (\<forall>i\<in>set [0..<h]. \<forall>j\<in>set [0..<w]. ?P i j)"
  proof (rule for_all_loop_char)
    fix i assume "i \<in> set [0..<h]"
    then have "i < h" by simp
    then show "for_all_loop [0..<w] (?cell i) = Some (\<forall>j\<in>set [0..<w]. ?P i j)"
      by (rule inner)
  qed
  moreover have "(\<forall>i\<in>set [0..<h]. \<forall>j\<in>set [0..<w]. ?P i j) = (\<forall>i<h. \<forall>j<w. ?P i j)"
    by auto
  ultimately have "for_all_loop [0..<h] (\<lambda>i. for_all_loop [0..<w] (?cell i))
        = Some (\<forall>i<h. \<forall>j<w. ?P i j)"
    by (simp only:)
  then show ?thesis
    unfolding close_enough_def at1 at2 using assms(3) by (simp add: l1 l2 w1 w2)
qed

lemma close_enough_scalar_finite:
  "close_enough_scalar (Finite a) (Finite b)
   \<longleftrightarrow> (\<exists>d. to_float (Finite (b - a)) = Finite d
            \<and> \<bar>d\<bar> \<le> 7378697629483821 / 73786976294838206464)"
proof (cases "to_float (Finite (b - a))")
  case (Finite d)
  then show ?thesis
    by (simp add: close_enough_scalar_def fsub_def tolerance_value not_less)
next
  case PInf
  then show ?thesis
    by (simp add: close_enough_scalar_def fsub_def tolerance_value)
next
  case NInf
  then show ?thesis
    by (simp add: close_enough_scalar_def fsub_def tolerance_value)
next
  case NaN
  then show ?thesis using round_fp_not_NaN by simp
qed

lemma initialize_beliefs_shape:
  assumes "rectangular grid h w" and "0 < h" and "0 < w" and "h * w \<le> 2147483647"
  shows "initialize_beliefs grid
         = Some (replicate h (replicate w (to_float (to_double (Finite (1 / real (h * w)))))))"
proof -
  have len: "length grid = h" using assms by (simp add: rectangular_def)
  have w0: "length (grid ! 0) = w" using assms by (simp add: rectangular_nth)
  have at0: "vec_at grid 0 = Some (grid ! 0)" using len assms(2) by (simp add: vec_at_def)
  have "int h * int w \<le> 2147483647"
    using assms(4) by (metis of_nat_mult of_nat_le_iff of_nat_numeral)
  moreover have "0 \<le> int h * int w" by simp
  then have "- 2147483648 \<le> int h * int w" by linarith
  ultimately have ci: "c_int (int h * int w) = Some (int h * int w)"
    unfolding c_int_def by (simp only: simp_thms if_True)
  have nz: "real h * real w \<noteq> 0" using assms(2,3) by simp
  show ?thesis
    unfolding initialize_beliefs_def at0 using nz
    by (simp add: len w0 ci del: to_float.simps to_double.simps)
qed

lemma bit_length_bounds:
  "0 < n \<Longrightarrow> 1 \<le> bit_length n \<and> 2 powi (bit_length n - 1) \<le> real_of_int n
                \<and> real_of_int n < 2 powi (bit_length n)"
proof (induction n rule: bit_length.induct)
  case (1 n)
  show ?case
  proof (cases "n div 2 \<le> 0")
    case True
    with "1.prems" have n1: "n = 1" by linarith
    have "bit_length 1 = 1"
      by (simp add: bit_length.simps [of 1] bit_length.simps [of 0])
    then show ?thesis using n1 by simp
  next
    case False
    then have m: "0 < n div 2" by simp
    let ?k = "bit_length (n div 2)"
    have ih: "1 \<le> ?k" "2 powi (?k - 1) \<le> real_of_int (n div 2)"
      "real_of_int (n div 2) < 2 powi ?k"
      using "1.IH" "1.prems" m by simp_all
    have bl: "bit_length n = 1 + ?k" using "1.prems" by (simp add: bit_length.simps [of n])
    have p1: "(2::real) powi ?k = 2 * 2 powi (?k - 1)"
      by (simp add: power_int_diff)
    have p2: "(2::real) powi (1 + ?k) = 2 * 2 powi ?k"
      by (simp add: power_int_add)
    have lo: "2 * (n div 2) \<le> n" and hi: "n \<le> 2 * (n div 2) + 1" by linarith+
    have "2 * 2 powi (?k - 1) \<le> real_of_int (2 * (n div 2))" using ih(2) by simp
    also have "\<dots> \<le> real_of_int n" using lo by linarith
    finally have a: "2 powi (bit_length n - 1) \<le> real_of_int n" by (simp add: bl p1)
    have "?k \<ge> 0" using ih(1) by simp
    then obtain j where j: "?k = int j" using nonneg_int_cases by blast
    have "real_of_int (n div 2) < real_of_int (2 ^ j)" using ih(3) j by simp
    then have "n div 2 < 2 ^ j" by (simp only: of_int_less_iff)
    then have "n < 2 * 2 ^ j" using hi by linarith
    then have "real_of_int n < real_of_int (2 * 2 ^ j)" by (simp only: of_int_less_iff)
    then have "real_of_int n < 2 * 2 ^ j" by simp
    moreover have "(2::real) powi (1 + ?k) = 2 * 2 ^ j" using p2 j by simp
    ultimately have b: "real_of_int n < 2 powi (bit_length n)" by (simp only: bl)
    show ?thesis using a b ih(1) bl by simp
  qed
qed


lemma bit_length_succ_le:
  assumes "0 < n"
  shows "real_of_int n + 1 \<le> 2 powi (bit_length n)"
proof -
  have b: "1 \<le> bit_length n" "real_of_int n < 2 powi (bit_length n)"
    using bit_length_bounds [OF assms] by simp_all
  then obtain j where j: "bit_length n = int j"
    using nonneg_int_cases [of "bit_length n"] by force
  have "real_of_int n < real_of_int (2 ^ j)" using b(2) j by simp
  then have "n < 2 ^ j" by (simp only: of_int_less_iff)
  then have "n + 1 \<le> 2 ^ j" by simp
  then have "real_of_int (n + 1) \<le> real_of_int (2 ^ j)" by (simp only: of_int_le_iff)
  then show ?thesis using j by simp
qed

lemma floor_log2_bounds:
  assumes "0 < x"
  shows "2 powi (floor_log2 x) \<le> x \<and> x < 2 powi (floor_log2 x + 1)"
proof (cases "1 \<le> x")
  case True
  let ?n = "\<lfloor>x\<rfloor>"
  have n: "0 < ?n" using True by simp
  have fl: "floor_log2 x = bit_length ?n - 1" using True by (simp add: floor_log2_def)
  have "2 powi (bit_length ?n - 1) \<le> real_of_int ?n"
    using bit_length_bounds [OF n] by simp
  also have "\<dots> \<le> x" by simp
  finally have lo: "2 powi (floor_log2 x) \<le> x" by (simp add: fl)
  have "x < real_of_int ?n + 1" by linarith
  also have "\<dots> \<le> 2 powi (bit_length ?n)" using n by (rule bit_length_succ_le)
  finally have "x < 2 powi (floor_log2 x + 1)" by (simp add: fl)
  with lo show ?thesis by simp
next
  case False
  let ?y = "1 / x"
  let ?m = "\<lceil>?y\<rceil> - 1"
  let ?k = "bit_length ?m"
  have y1: "1 < ?y" using False assms by simp
  then have "2 \<le> \<lceil>?y\<rceil>" by linarith
  then have m: "0 < ?m" by simp
  have fl: "floor_log2 x = - ?k" using False by (simp add: floor_log2_def)
  have my: "real_of_int ?m < ?y" by linarith
  have ym: "?y \<le> real_of_int ?m + 1" by linarith
  have lo: "2 powi (?k - 1) \<le> real_of_int ?m" using bit_length_bounds [OF m] by simp
  have hi: "real_of_int ?m + 1 \<le> 2 powi ?k" using m by (rule bit_length_succ_le)
  have pk: "0 < (2::real) powi ?k" and pk1: "0 < (2::real) powi (?k - 1)" by simp_all
  have "?y \<le> 2 powi ?k" using ym hi by linarith
  moreover have ypos: "0 < ?y" using y1 by linarith
  ultimately have "inverse (2 powi ?k) \<le> inverse ?y"
    by (rule le_imp_inverse_le)
  then have "1 / 2 powi ?k \<le> 1 / ?y" by (simp only: inverse_eq_divide)
  then have a: "2 powi (floor_log2 x) \<le> x"
    using assms by (simp add: fl power_int_minus_divide)
  have "2 powi (?k - 1) < ?y" using lo my by linarith
  then have "inverse ?y < inverse (2 powi (?k - 1))"
    using pk1 by (rule less_imp_inverse_less)
  then have "1 / ?y < 1 / 2 powi (?k - 1)" by (simp only: inverse_eq_divide)
  moreover have "(2::real) powi (floor_log2 x + 1) = 1 / 2 powi (?k - 1)"
  proof -
    have "floor_log2 x + 1 = - (?k - 1)" using fl by simp
    then show ?thesis by (simp only: power_int_minus_divide)
  qed
  ultimately have "x < 2 powi (floor_log2 x + 1)" using assms by simp
  with a show ?thesis by simp
qed

lemma round_even_error: "\<bar>real_of_int (round_even x) - x\<bar> \<le> 1 / 2"
proof -
  have "real_of_int \<lfloor>x\<rfloor> \<le> x" and "x < real_of_int \<lfloor>x\<rfloor> + 1" by linarith+
  then show ?thesis by (auto simp: round_even_def Let_def)
qed

lemma round_even_nonneg: "0 \<le> x \<Longrightarrow> 0 \<le> round_even x"
  by (auto simp: round_even_def Let_def)

lemma round_even_le_int:
  assumes "x \<le> real_of_int M"
  shows "round_even x \<le> M"
proof -
  have f: "\<lfloor>x\<rfloor> \<le> M" using assms by (simp add: floor_le_iff)
  show ?thesis
  proof (cases "\<lfloor>x\<rfloor> = M")
    case True
    then have "x - real_of_int \<lfloor>x\<rfloor> \<le> 0" using assms by simp
    then show ?thesis using True by (auto simp: round_even_def Let_def)
  next
    case False
    then have "\<lfloor>x\<rfloor> + 1 \<le> M" using f by simp
    then show ?thesis using f by (auto simp: round_even_def Let_def)
  qed
qed


lemma bit_length_le:
  assumes "0 \<le> n" and "real_of_int n \<le> 2 powi p" and "0 \<le> p"
  shows "bit_length n \<le> p + 1"
proof (cases "n = 0")
  case True
  then show ?thesis using assms(3) by (simp add: bit_length.simps [of 0])
next
  case False
  then have n: "0 < n" using assms(1) by simp
  have "(2::real) powi (bit_length n - 1) \<le> 2 powi p"
    using bit_length_bounds [OF n] assms(2) by linarith
  then have "bit_length n - 1 \<le> p"
    using assms(3) by (rule power_int_le_imp_le_exp [of "2::real", rotated]) simp_all
  then show ?thesis by simp
qed

lemma round_fp_normal:
  assumes "0 < x" and "emin \<le> floor_log2 x" and "floor_log2 x < emax" and "1 \<le> p"
  shows "\<exists>y. round_fp p emin emax x = Finite y \<and> \<bar>y - x\<bar> \<le> x * 2 powi (- p)"
proof -
  define e where "e = floor_log2 x"
  define u where "u = (2::real) powi (e - (p - 1))"
  define n where "n = round_even (x / u)"
  have upos: "0 < u" by (simp add: u_def)
  have lo: "2 powi e \<le> x" and hi: "x < 2 powi (e + 1)"
    using floor_log2_bounds [OF assms(1)] by (simp_all add: e_def)
  have me: "max emin (floor_log2 x) = e"
    using assms(2) by (simp add: e_def)
  have ue: "u * 2 powi (p - 1) = 2 powi e"
    by (simp add: u_def flip: power_int_add)
  have up: "u * 2 powi p = 2 powi (e + 1)"
    by (simp add: u_def flip: power_int_add)
  have "x < u * 2 powi p" using hi up by simp
  then have xu: "x / u < 2 powi p" using upos by (simp add: pos_divide_less_eq mult.commute)
  have n0: "0 \<le> n" using assms(1) upos by (simp add: n_def round_even_nonneg)
  have p0: "0 \<le> p" using assms(4) by simp
  then obtain j where j: "p = int j" using nonneg_int_cases by blast
  have "x / u \<le> real_of_int (2 ^ j)" using xu j by simp
  then have "n \<le> 2 ^ j" unfolding n_def by (rule round_even_le_int)
  then have "real_of_int n \<le> real_of_int (2 ^ j)" by (simp only: of_int_le_iff)
  then have "real_of_int n \<le> 2 powi p" using j by simp
  then have "bit_length n \<le> p + 1" using n0 p0 by (intro bit_length_le) simp_all
  then have no: "\<not> emax < e + (bit_length \<bar>n\<bar> - p)"
    using n0 assms(3) by (simp add: e_def)
  have r: "round_fp p emin emax x = Finite (real_of_int n * u)"
    using assms(1) no
    by (simp add: round_fp_def Let_def me n_def u_def)
  have "\<bar>real_of_int n - x / u\<bar> \<le> 1 / 2" unfolding n_def by (rule round_even_error)
  then have "\<bar>real_of_int n - x / u\<bar> * u \<le> 1 / 2 * u"
    using upos by (intro mult_right_mono) simp_all
  moreover have "\<bar>real_of_int n - x / u\<bar> * u = \<bar>real_of_int n * u - x\<bar>"
  proof -
    have "\<bar>real_of_int n - x / u\<bar> * u = \<bar>(real_of_int n - x / u) * u\<bar>"
      using upos by (simp add: abs_mult)
    also have "(real_of_int n - x / u) * u = real_of_int n * u - x"
      using upos by (simp add: algebra_simps)
    finally show ?thesis .
  qed
  ultimately have err: "\<bar>real_of_int n * u - x\<bar> \<le> u / 2" by simp
  have "e - (p - 1) = (e - p) + 1" by simp
  then have "u = 2 powi ((e - p) + 1)" by (simp only: u_def)
  also have "\<dots> = 2 powi (e - p) * 2" by (rule power_int_add_1) simp
  finally have "u / 2 = 2 powi (e + - p)" by simp
  also have "\<dots> = 2 powi e * 2 powi (- p)" by (rule power_int_add) simp
  also have "\<dots> \<le> x * 2 powi (- p)"
    using lo by (intro mult_right_mono) simp_all
  finally have "u / 2 \<le> x * 2 powi (- p)" .
  with err have "\<bar>real_of_int n * u - x\<bar> \<le> x * 2 powi (- p)" by linarith
  with r show ?thesis by blast
qed

lemma floor_log2_in_range:
  assumes "0 < x" and "2 powi a \<le> x" and "x < 2 powi b"
  shows "a \<le> floor_log2 x \<and> floor_log2 x < b"
proof -
  have lo: "2 powi (floor_log2 x) \<le> x" and hi: "x < 2 powi (floor_log2 x + 1)"
    using floor_log2_bounds [OF assms(1)] by simp_all
  have "a \<le> floor_log2 x"
  proof (rule ccontr)
    assume "\<not> a \<le> floor_log2 x"
    then have "floor_log2 x + 1 \<le> a" by simp
    then have "(2::real) powi (floor_log2 x + 1) \<le> 2 powi a"
      by (rule power_int_increasing) simp
    then show False using hi assms(2) by linarith
  qed
  moreover have "floor_log2 x < b"
  proof (rule ccontr)
    assume "\<not> floor_log2 x < b"
    then have "b \<le> floor_log2 x" by simp
    then have "(2::real) powi b \<le> 2 powi (floor_log2 x)"
      by (rule power_int_increasing) simp
    then show False using lo assms(3) by linarith
  qed
  ultimately show ?thesis by simp
qed

lemma belief_per_cell_error:
  assumes "1 \<le> N" and "N \<le> 2147483647"
  shows "\<exists>c. to_float (to_double (Finite (1 / real N))) = Finite c
             \<and> \<bar>c * real N - 1\<bar> \<le> 1 / 2 ^ 23"
proof -
  define x where "x = 1 / real N"
  have N: "0 < real N" "real N \<le> 2147483647" using assms by simp_all
  have xpos: "0 < x" using N by (simp add: x_def)
  have xN: "x * real N = 1" using N by (simp add: x_def)
  have x1: "x \<le> 1" using assms(1) by (simp add: x_def)
  have "1 / 2147483648 \<le> 1 / real N"
    using N by (intro divide_left_mono) simp_all
  then have xlo: "2 powi (- 31) \<le> x" by (simp add: x_def)
  have xhi: "x < 2 powi 1" using x1 by simp
  have e1: "- 1022 \<le> floor_log2 x" "floor_log2 x < 1023"
    using floor_log2_in_range [OF xpos xlo xhi] by simp_all
  have "\<exists>y. round_fp 53 (- 1022) 1023 x = Finite y \<and> \<bar>y - x\<bar> \<le> x * 2 powi (- 53)"
    by (rule round_fp_normal [OF xpos e1]) simp
  then obtain y1 where y1: "round_fp 53 (- 1022) 1023 x = Finite y1"
      and d1: "\<bar>y1 - x\<bar> \<le> x * 2 powi (- 53)"
    by blast
  have s53: "(2::real) powi (- 53) \<le> 1 / 2" by simp
  have "x * 2 powi (- 53) \<le> x * (1 / 2)"
    using xpos s53 by (intro mult_left_mono) simp_all
  then have y1x: "x / 2 \<le> y1" "y1 \<le> x + x * 2 powi (- 53)" using d1 by linarith+
  have ypos: "0 < y1" using y1x(1) xpos by linarith
  have "2 powi (- 32) \<le> x / 2" using xlo by simp
  then have ylo: "2 powi (- 32) \<le> y1" using y1x(1) by linarith
  have "y1 \<le> x + x * (1 / 2)"
    using y1x(2) \<open>x * 2 powi (- 53) \<le> x * (1 / 2)\<close> by linarith
  then have yhi: "y1 < 2 powi 1" using x1 by simp
  have e2: "- 126 \<le> floor_log2 y1" "floor_log2 y1 < 127"
    using floor_log2_in_range [OF ypos ylo yhi] by simp_all
  have "\<exists>y. round_fp 24 (- 126) 127 y1 = Finite y \<and> \<bar>y - y1\<bar> \<le> y1 * 2 powi (- 24)"
    by (rule round_fp_normal [OF ypos e2]) simp
  then obtain y2 where y2: "round_fp 24 (- 126) 127 y1 = Finite y2"
      and d2: "\<bar>y2 - y1\<bar> \<le> y1 * 2 powi (- 24)"
    by blast
  have val: "to_float (to_double (Finite (1 / real N))) = Finite y2"
    using y1 y2 by (simp add: x_def)
  have "y1 * 2 powi (- 24) \<le> (x + x * 2 powi (- 53)) * 2 powi (- 24)"
    using y1x(2) by (intro mult_right_mono) simp_all
  then have "\<bar>y2 - x\<bar> \<le> (x + x * 2 powi (- 53)) * 2 powi (- 24) + x * 2 powi (- 53)"
    using d1 d2 by linarith
  also have "\<dots> = x * ((1 + 2 powi (- 53)) * 2 powi (- 24) + 2 powi (- 53))"
    by (simp add: algebra_simps)
  also have "\<dots> \<le> x * (1 / 2 ^ 23)"
    using xpos by (intro mult_left_mono) simp_all
  finally have "\<bar>y2 - x\<bar> * real N \<le> x * (1 / 2 ^ 23) * real N"
    using N by (intro mult_right_mono) simp_all
  moreover have "\<bar>y2 - x\<bar> * real N = \<bar>y2 * real N - 1\<bar>"
  proof -
    have "\<bar>y2 - x\<bar> * real N = \<bar>(y2 - x) * real N\<bar>" using N by (simp add: abs_mult)
    also have "(y2 - x) * real N = y2 * real N - 1" using xN by (simp add: algebra_simps)
    finally show ?thesis .
  qed
  moreover have "x * (1 / 2 ^ 23) * real N = 1 / 2 ^ 23" using xN by (simp add: mult.commute mult.left_commute)
  ultimately have "\<bar>y2 * real N - 1\<bar> \<le> 1 / 2 ^ 23" by simp
  with val show ?thesis by blast
qed

lemma total_mass_replicate:
  "total_mass (replicate h (replicate w (Finite c))) = real h * (real w * c)"
  by (induction h) (simp_all add: total_mass_def sum_list_replicate algebra_simps)

section \<open>The claims\<close>

text \<open>
  C1 (fails on the code). The claim: for every rectangular non-empty grid with non-zero
  total \<open>S\<close>, \<open>normalize\<close> returns a grid of the same dimensions whose cell \<open>(i,j)\<close> is
  \<open>grid[i][j] / S\<close>, and whose cells sum to 1. On the grid \<open>[[1, 1]]\<close> of one row and two
  columns the second pair of loops stops at column \<open>grid.size() = 1\<close>: the code returns
  \<open>[[1/2, 0]]\<close>, where the claim has \<open>[[1/2, 1/2]]\<close>.
\<close>

theorem normalize_wide_grid_unfilled:
  "normalize_grid [[Finite 1, Finite 1]] = Some [[Finite (1 / 2), Finite 0]]"
  by code_simp

text \<open>
  C2 (fails on the code). The claim: for all integers \<open>dy\<close> and \<open>dx\<close>, negative ones
  included, the first step of \<open>move\<close> sends cell \<open>(i,j)\<close> to
  \<open>((i+dy) mod height, (j+dx) mod width)\<close> with the non-negative modulus, a bijection on
  the cells. The loops compute \<open>(i + dy) % width\<close> and \<open>(j + dx) % height\<close> with the
  remainder of C++. With \<open>dy = -1\<close> on a 2 by 2 grid the row index of cell \<open>(0,0)\<close> is
  \<open>-1\<close>, outside the grid, in the loops and so in \<open>move\<close>. With \<open>dx = 1\<close> on the grid
  \<open>[[1, 3]]\<close> of one row both cells go to column \<open>0\<close>: the loops give \<open>[[3, 0]]\<close>, where the
  claim has \<open>[[3, 1]]\<close>.
\<close>

theorem move_translation_slips:
  "shift (- 1) 0 [[Finite 1, Finite 2], [Finite 3, Finite 4]] 2 2
       [[Finite 0, Finite 0], [Finite 0, Finite 0]] = None
   \<and> move (- 1) 0 [[Finite 1, Finite 2], [Finite 3, Finite 4]] (Finite 0) = None
   \<and> shift 0 1 [[Finite 1, Finite 3]] 1 2 [[Finite 0, Finite 0]] = Some [[Finite 3, Finite 0]]"
  by code_simp

text \<open>
  C3 (fails on the code). The claim: \<open>sense\<close> returns the normalized grid of
  \<open>beliefs[i][j] * p_hit\<close> where the colour matches and \<open>beliefs[i][j] * p_miss\<close>
  elsewhere, \<open>[[3/4, 1/4]]\<close> on the example. The code calls \<open>normalize\<close> on an empty
  vector, whose first step reads \<open>grid[0]\<close>: it has no defined result on any input.
\<close>

theorem sense_is_placeholder:
  "sense color grid beliefs p_hit p_miss = None
   \<and> sense CHR ''r'' [[CHR ''r'', CHR ''g'']] [[Finite (1 / 2), Finite (1 / 2)]]
        (Finite 3) (Finite 1) \<noteq> Some [[Finite (3 / 4), Finite (1 / 4)]]"
  by (simp add: sense_def normalize_grid_def vec_at_def)

text \<open>
  C4 (fails on the code). The claim: \<open>move\<close> by \<open>(dy,dx)\<close> and then by \<open>(-dy,-dx)\<close>, both
  with \<open>blurring = 0\<close>, returns the normalized original grid. On the 3 by 3 grid with its
  mass in the centre, \<open>move\<close> by \<open>(1,1)\<close> puts the mass in the bottom right corner, and
  \<open>move\<close> by \<open>(-1,-1)\<close> on that grid indexes row \<open>-1\<close>.
\<close>

theorem move_round_trip_undefined:
  "move 1 1 [[Finite 0, Finite 0, Finite 0],
             [Finite 0, Finite 1, Finite 0],
             [Finite 0, Finite 0, Finite 0]] (Finite 0)
     = Some [[Finite 0, Finite 0, Finite 0],
             [Finite 0, Finite 0, Finite 0],
             [Finite 0, Finite 0, Finite 1]]
   \<and> move (- 1) (- 1) [[Finite 0, Finite 0, Finite 0],
                      [Finite 0, Finite 0, Finite 0],
                      [Finite 0, Finite 0, Finite 1]] (Finite 0) = None"
  by code_simp




text \<open>
  C6 (fails on the code). The claim: for every rectangular non-empty grid \<open>g\<close> of positive
  total, \<open>blur(g, 0.0)\<close> equals \<open>normalize(g)\<close> within the tolerance. \<open>blur\<close> ends by
  calling \<open>normalize\<close>, whose second pair of loops takes the column index up to
  \<open>grid.size()\<close>: on the grid \<open>[[1], [1]]\<close> of two rows and one column it reads and writes
  column 1 of rows that have one cell, so neither \<open>blur\<close> nor \<open>normalize\<close> has a defined
  result to compare.
\<close>

theorem blur_zero_tall_grid_undefined:
  "blur [[Finite 1], [Finite 1]] (Finite 0) = None
   \<and> normalize_grid [[Finite 1], [Finite 1]] = None"
  by code_simp

text \<open>
  C7 (fails on the code). The claim: the window built from \<open>b\<close> sums exactly to 1, and so
  a uniform grid is a fixed point of \<open>blur\<close>. For \<open>b = 1/2\<close> the entries are stored as
  \<open>float\<close>s and sum to \<open>1 + 2^-26\<close>. On the uniform grid \<open>[[1/2, 1/2]]\<close> of one row and
  \<open>b = 1/2\<close> the four loops rebuild \<open>[[1/2, 1/2]]\<close>, and the closing call of \<open>normalize\<close>
  fills column 0 only: \<open>blur\<close> returns \<open>[[1/2, 0]]\<close>.
\<close>

theorem blur_uniform_wide_not_fixed:
  "total_mass (window (Finite (1 / 2))) = 1 + 1 / 2 ^ 26
   \<and> blur [[Finite (1 / 2), Finite (1 / 2)]] (Finite (1 / 2))
       = Some [[Finite (1 / 2), Finite 0]]"
proof -
  have "total_mass (window (Finite (1 / 2))) = 1 + 1 / 2 ^ 26"
    by code_simp
  moreover have "blur [[Finite (1 / 2), Finite (1 / 2)]] (Finite (1 / 2))
       = Some [[Finite (1 / 2), Finite 0]]"
    by code_simp
  ultimately show ?thesis by simp
qed

text \<open>
  C8 (as stated, fails on the code). The claim: every cell of the result of
  \<open>initialize_beliefs\<close> equals \<open>1 / (height * width)\<close>. A cell is a \<open>float\<close>: on a map of
  one row and three columns every cell is \<open>11184811 / 2^25\<close>, the \<open>float\<close> nearest to
  \<open>1/3\<close>, and not \<open>1/3\<close>.
\<close>

theorem initialize_beliefs_inexact_counterexample:
  "initialize_beliefs [[CHR ''g'', CHR ''g'', CHR ''g'']]
     = Some [[Finite (11184811 / 33554432), Finite (11184811 / 33554432),
              Finite (11184811 / 33554432)]]
   \<and> (11184811 / 33554432 :: real) \<noteq> 1 / 3"
proof -
  have "initialize_beliefs [[CHR ''g'', CHR ''g'', CHR ''g'']]
     = Some [[Finite (11184811 / 33554432), Finite (11184811 / 33554432),
              Finite (11184811 / 33554432)]]"
    by code_simp
  then show ?thesis by simp
qed


text \<open>
  C8 (amended). For every rectangular colour grid of \<open>h \<ge> 1\<close> rows and \<open>w \<ge> 1\<close> columns
  with \<open>h * w \<le> 2147483647\<close>, \<open>initialize_beliefs\<close> returns the grid of the same
  dimensions whose every cell is one and the same finite \<open>float\<close> \<open>c\<close>, the \<open>double\<close>
  quotient \<open>1.0 / (h * w)\<close> rounded to \<open>float\<close>. It is within the relative error \<open>2^-23\<close> of
  \<open>1 / (h * w)\<close>, so the cells sum to 1 within \<open>2^-23\<close>. On the 2 by 2 map \<open>c\<close> is exactly
  \<open>1/4\<close>.
\<close>

theorem initialize_beliefs_uniform:
  assumes "rectangular grid h w" and "0 < h" and "0 < w" and "h * w \<le> 2147483647"
  shows "\<exists>c. initialize_beliefs grid = Some (replicate h (replicate w (Finite c)))
             \<and> to_float (to_double (Finite (1 / real (h * w)))) = Finite c
             \<and> \<bar>c * real (h * w) - 1\<bar> \<le> 1 / 2 ^ 23
             \<and> \<bar>total_mass (replicate h (replicate w (Finite c))) - 1\<bar> \<le> 1 / 2 ^ 23"
proof -
  have "1 \<le> h * w" using assms(2,3) by (simp add: Suc_le_eq)
  then obtain c where c: "to_float (to_double (Finite (1 / real (h * w)))) = Finite c"
      and e: "\<bar>c * real (h * w) - 1\<bar> \<le> 1 / 2 ^ 23"
    using belief_per_cell_error [of "h * w"] assms(4) by blast
  have "initialize_beliefs grid = Some (replicate h (replicate w (Finite c)))"
    using initialize_beliefs_shape [OF assms] c by simp
  moreover have "total_mass (replicate h (replicate w (Finite c))) = c * real (h * w)"
    by (simp add: total_mass_replicate)
  ultimately show ?thesis using c e by auto
qed

theorem initialize_beliefs_uniform_witness:
  "rectangular [[CHR ''g'', CHR ''g''], [CHR ''g'', CHR ''g'']] 2 2
   \<and> initialize_beliefs [[CHR ''g'', CHR ''g''], [CHR ''g'', CHR ''g'']]
       = Some [[Finite (1 / 4), Finite (1 / 4)], [Finite (1 / 4), Finite (1 / 4)]]"
proof -
  have r: "rectangular [[CHR ''g'', CHR ''g''], [CHR ''g'', CHR ''g'']] 2 2"
    by (simp add: rectangular_def)
  have q: "to_float (to_double (Finite (1 / 4))) = Finite (1 / 4)" by code_simp
  obtain c where
    "initialize_beliefs [[CHR ''g'', CHR ''g''], [CHR ''g'', CHR ''g'']]
       = Some (replicate 2 (replicate 2 (Finite c)))"
    and "to_float (to_double (Finite (1 / real (2 * 2 :: nat)))) = Finite c"
    using initialize_beliefs_uniform [OF r] by auto
  then show ?thesis using r q by (simp add: numeral_2_eq_2)
qed

text \<open>
  C9. On the 3 by 3 grid with all its mass in the centre, \<open>move\<close> with \<open>dy = 1\<close>,
  \<open>dx = 1\<close> and \<open>blurring = 0\<close> returns the grid with all its mass in the bottom right
  corner.
\<close>

theorem move_example:
  "move 1 1 [[Finite 0, Finite 0, Finite 0],
             [Finite 0, Finite 1, Finite 0],
             [Finite 0, Finite 0, Finite 0]] (Finite 0)
   = Some [[Finite 0, Finite 0, Finite 0],
           [Finite 0, Finite 0, Finite 0],
           [Finite 0, Finite 0, Finite 1]]"
  by code_simp

text \<open>
  C10 (as stated, fails on the code). The claim: on grids of equal dimensions
  \<open>close_enough\<close> returns true exactly when every pair of cells differs by at most
  \<open>0.0001\<close>. The code rounds the difference to \<open>float\<close> before it compares. The two numbers
  \<open>-6917529 / 2^61\<close> and \<open>13743895 / 2^37\<close> are \<open>float\<close>s and differ by more than
  \<open>1/10000\<close>; their difference rounds to \<open>13743895 / 2^37\<close>, which is below the bound, and
  \<open>close_enough\<close> returns true.
\<close>

theorem close_enough_rounds_counterexample:
  "to_float (Finite (- 6917529 / 2305843009213693952)) = Finite (- 6917529 / 2305843009213693952)
   \<and> to_float (Finite (13743895 / 137438953472)) = Finite (13743895 / 137438953472)
   \<and> close_enough [[Finite (- 6917529 / 2305843009213693952)]] [[Finite (13743895 / 137438953472)]]
       = Some True
   \<and> (1 / 10000 :: real) < \<bar>- 6917529 / 2305843009213693952 - 13743895 / 137438953472\<bar>"
proof -
  have "to_float (Finite (- 6917529 / 2305843009213693952)) = Finite (- 6917529 / 2305843009213693952)"
    by code_simp
  moreover have "to_float (Finite (13743895 / 137438953472)) = Finite (13743895 / 137438953472)"
    by code_simp
  moreover have "close_enough [[Finite (- 6917529 / 2305843009213693952)]] [[Finite (13743895 / 137438953472)]]
       = Some True"
    by code_simp
  moreover have "(1 / 10000 :: real) < \<bar>- 6917529 / 2305843009213693952 - 13743895 / 137438953472\<bar>"
    by simp
  ultimately show ?thesis by simp
qed

text \<open>
  C10 (amended). \<open>close_enough\<close> on grids returns false when the numbers of rows differ,
  and when they agree but the first rows differ in width. On two rectangular grids of the
  same dimensions, with at least one row and at most \<open>2147483647\<close> rows and columns, it
  returns true exactly when the overload on two numbers accepts every pair of cells. On two finite numbers \<open>v1\<close> and \<open>v2\<close> that overload
  is true exactly when the difference \<open>v2 - v1\<close> rounded to \<open>float\<close> is finite and of
  magnitude at most \<open>7378697629483821 / 2^66\<close>, the \<open>double\<close> nearest to \<open>0.0001\<close>; the
  bound is inclusive. The witness has grids that differ in rows, in width, by \<open>2^-14\<close>
  and by \<open>2^-13\<close>.
\<close>

theorem close_enough_tolerance:
  "(length g1 \<noteq> length g2 \<longrightarrow> close_enough g1 g2 = Some False)
   \<and> (length g1 = length g2 \<and> g1 \<noteq> [] \<and> length (g1 ! 0) \<noteq> length (g2 ! 0)
        \<longrightarrow> close_enough g1 g2 = Some False)
   \<and> (rectangular g1 h w \<and> rectangular g2 h w \<and> 0 < h
          \<and> h \<le> 2147483647 \<and> w \<le> 2147483647
        \<longrightarrow> close_enough g1 g2
            = Some (\<forall>i<h. \<forall>j<w. close_enough_scalar (g1 ! i ! j) (g2 ! i ! j)))
   \<and> (close_enough_scalar (Finite a) (Finite b)
        \<longleftrightarrow> (\<exists>d. to_float (Finite (b - a)) = Finite d
                 \<and> \<bar>d\<bar> \<le> 7378697629483821 / 73786976294838206464))"
proof (intro conjI impI)
  assume "length g1 \<noteq> length g2"
  then show "close_enough g1 g2 = Some False" by (simp add: close_enough_def)
next
  assume "length g1 = length g2 \<and> g1 \<noteq> [] \<and> length (g1 ! 0) \<noteq> length (g2 ! 0)"
  then show "close_enough g1 g2 = Some False"
    by (auto simp: close_enough_def vec_at_def)
next
  assume "rectangular g1 h w \<and> rectangular g2 h w \<and> 0 < h
          \<and> h \<le> 2147483647 \<and> w \<le> 2147483647"
  then show "close_enough g1 g2
      = Some (\<forall>i<h. \<forall>j<w. close_enough_scalar (g1 ! i ! j) (g2 ! i ! j))"
    by (intro close_enough_cells) simp_all
next
  show "close_enough_scalar (Finite a) (Finite b)
        \<longleftrightarrow> (\<exists>d. to_float (Finite (b - a)) = Finite d
                 \<and> \<bar>d\<bar> \<le> 7378697629483821 / 73786976294838206464)"
    by (rule close_enough_scalar_finite)
qed

theorem close_enough_tolerance_witness:
  "close_enough [[Finite 1]] [] = Some False
   \<and> close_enough [[Finite 1]] [[Finite 1, Finite 1]] = Some False
   \<and> close_enough [[Finite 1]] [[Finite (1 + 1 / 16384)]] = Some True
   \<and> close_enough [[Finite 1]] [[Finite (1 + 1 / 8192)]] = Some False
   \<and> (\<exists>d. to_float (Finite (1 + 1 / 16384 - 1)) = Finite d
            \<and> \<bar>d\<bar> \<le> 7378697629483821 / 73786976294838206464)"
proof -
  have a: "close_enough_scalar (Finite 1) (Finite (1 + 1 / 16384))" by code_simp
  have b: "\<not> close_enough_scalar (Finite 1) (Finite (1 + 1 / 8192))" by code_simp
  show ?thesis
    using a b
      close_enough_tolerance [of "[[Finite 1]]" "[]" 1 1 1 "1 + 1 / 16384"]
      close_enough_tolerance [of "[[Finite 1]]" "[[Finite 1, Finite 1]]" 1 1 1 1]
      close_enough_tolerance [of "[[Finite 1]]" "[[Finite (1 + 1 / 16384)]]" 1 1 1 1]
      close_enough_tolerance [of "[[Finite 1]]" "[[Finite (1 + 1 / 8192)]]" 1 1 1 1]
    by (simp add: rectangular_def)
qed

end
